theory Spec2Isabelle
  imports Main "HOL-Library.Word"
begin

section \<open>Type-level tuple and string utilities\<close>

text \<open>
  The utilities of the declaration file are conditional types that the type checker
  evaluates by recursion. A tuple type \<^verbatim>\<open>[A, B, C]\<close> is a list of its element types, a
  string literal type is the list of its code units, and a numeric literal type \<^verbatim>\<open>N\<close> is
  an integer (the constraint \<^verbatim>\<open>N extends number\<close> also admits negative literals, which
  no tuple length ever equals). The test \<^verbatim>\<open>Removed["length"] extends N\<close> on a tuple of
  fixed length and a literal \<^verbatim>\<open>N\<close> is equality of the length with \<^verbatim>\<open>N\<close>. Defaulted type
  parameters (\<^verbatim>\<open>Removed = []\<close>, \<^verbatim>\<open>Result = []\<close>) are explicit arguments here; the
  theorems pass the defaults.

  Unions, template-literal pattern types, the wide type \<^verbatim>\<open>number\<close> and open-ended arrays
  are outside this model.
\<close>





text \<open>
  \<^verbatim>\<open>type RemoveFirstNElements<T extends any[], N extends number,
        Removed extends any[] = [], Result extends any[] = []> =
    Removed["length"] extends N ? Result
    : T extends [infer First, ...infer Rest]
    ? RemoveFirstNElements<Rest, N, [...Removed, First], Rest>
    : Result;\<close>
\<close>

fun RemoveFirstNElements :: "'a list \<Rightarrow> int \<Rightarrow> 'a list \<Rightarrow> 'a list \<Rightarrow> 'a list" where
  "RemoveFirstNElements T N Removed Result =
     (if int (length Removed) = N then Result
      else (case T of
              First # Rest \<Rightarrow> RemoveFirstNElements Rest N (Removed @ [First]) Rest
            | [] \<Rightarrow> Result))"

declare RemoveFirstNElements.simps [simp del]

text \<open>
  \<^verbatim>\<open>type RemoveLastNElements<T extends any[], N extends number,
        Removed extends any[] = [], Result extends any[] = []> =
    Removed["length"] extends N ? Result
    : T extends [...infer Rest, infer Last]
    ? RemoveFirstNElements<Rest, N, [...Removed, Last], Rest>
    : Result;\<close>

  The recursive position names \<^verbatim>\<open>RemoveFirstNElements\<close>, so this type does not call
  itself. The pattern \<^verbatim>\<open>[...infer Rest, infer Last]\<close> matches a non-empty tuple with
  \<^verbatim>\<open>Rest = butlast T\<close> and \<^verbatim>\<open>Last = last T\<close>.
\<close>

definition RemoveLastNElements :: "'a list \<Rightarrow> int \<Rightarrow> 'a list \<Rightarrow> 'a list \<Rightarrow> 'a list" where
  "RemoveLastNElements T N Removed Result =
     (if int (length Removed) = N then Result
      else if T \<noteq> [] then
        RemoveFirstNElements (butlast T) N (Removed @ [last T]) (butlast T)
      else Result)"

section \<open>The declared environment interfaces\<close>

text \<open>
  \<^verbatim>\<open>type OreUICustomizerType = "Website" | "App" | "CLI";\<close>

  A union of three string literal types: a datatype with one constructor for each member,
  and the string each member stands for.
\<close>

datatype OreUICustomizerType = Website | App | CLI

fun OreUICustomizerType_literal :: "OreUICustomizerType \<Rightarrow> string" where
  "OreUICustomizerType_literal Website = ''Website''"
| "OreUICustomizerType_literal App = ''App''"
| "OreUICustomizerType_literal CLI = ''CLI''"

text \<open>
  \<^verbatim>\<open>interface OreUICustomizerEnv {
    readonly version: string;
    readonly type: OreUICustomizerType;
    readonly settings: OreUICustomizerSettings;
  }\<close>

  \<^verbatim>\<open>OreUICustomizerSettings\<close> is imported from another package and stays a type parameter.
\<close>

record 'settings OreUICustomizerEnv =
  version :: string
  type :: OreUICustomizerType
  settings :: 'settings

text \<open>
  The interface \<^verbatim>\<open>OreUICustomizerPluginEnv\<close> as the list of its member signatures, in
  the order of the declaration file. The types that occur in the signatures are named,
  not interpreted.
\<close>

datatype TsType =
    T_string
  | T_undefined
  | T_Uint8Array
  | T_Blob
  | T_Promise TsType
  | T_WritableStream TsType
  | T_Union TsType TsType
  | T_zip_ZipEntry
  | T_zip_ZipFileEntry
  | T_zip_ZipDirectoryEntry
  | T_zip_FS
  | T_ReadonlyDeep TsType
  | T_PluginManifestJSON

text \<open>
  A member is a method (name, parameters, return type) or a property (name, whether it
  carries the \<^verbatim>\<open>readonly\<close> modifier, type).
\<close>

datatype Member =
    MethodSig string "(string \<times> TsType) list" TsType
  | PropertySig string bool TsType

fun member_name :: "Member \<Rightarrow> string" where
  "member_name (MethodSig n ps r) = n"
| "member_name (PropertySig n ro t) = n"

fun lookup_member :: "Member list \<Rightarrow> string \<Rightarrow> Member option" where
  "lookup_member [] n = None"
| "lookup_member (m # ms) n = (if member_name m = n then Some m else lookup_member ms n)"

definition OreUICustomizerPluginEnv_members :: "Member list" where
  "OreUICustomizerPluginEnv_members =
    [MethodSig ''fetchFileContents'' [(''path'', T_string)] (T_Promise T_Uint8Array),
     MethodSig ''fetchFileStringContents'' [(''path'', T_string)] (T_Promise T_string),
     MethodSig ''fetchFileAsBlob'' [(''path'', T_string)] (T_Promise T_Blob),
     MethodSig ''fetchFileAsWritableStream'' [(''path'', T_string)]
       (T_Promise (T_WritableStream T_Uint8Array)),
     MethodSig ''findZipEntry'' [(''path'', T_string)] (T_Union T_zip_ZipEntry T_undefined),
     MethodSig ''findZipFileEntry'' [(''path'', T_string)]
       (T_Union T_zip_ZipFileEntry T_undefined),
     MethodSig ''findZipDirectoryEntry'' [(''path'', T_string)]
       (T_Union T_zip_ZipDirectoryEntry T_undefined),
     PropertySig ''zipFs'' True T_zip_FS,
     PropertySig ''manifest'' True (T_ReadonlyDeep T_PluginManifestJSON)]"

section \<open>The plugin capability facade\<close>

text \<open>
  The declaration file gives the signatures of the facade's operations; the bodies belong
  to the host application and are not among the declarations. The definitions of this
  section are therefore written from the specification's description of the facade
  (its data model, its component design and its error handling design), with the result
  types of the declared signatures. A rejected promise is the \<open>Inl\<close> branch of a sum.
\<close>

text \<open>
  Modelled from the spec: the two error classes of the error handling design; the
  declarations name no error type.
\<close>

datatype PluginError = NotFound | UnsupportedOperation

type_synonym Uint8Array = "8 word list"

text \<open>
  Modelled from the spec: an archive entry is either a file entry (with its bytes) or a
  directory entry; \<^verbatim>\<open>zip.ZipEntry\<close>, \<^verbatim>\<open>zip.ZipFileEntry\<close> and \<^verbatim>\<open>zip.ZipDirectoryEntry\<close>
  are imported types whose declarations are not in the repository.
\<close>

datatype ZipEntry = ZipFileEntry Uint8Array | ZipDirectoryEntry

text \<open>
  Modelled from the spec: the value behind the platform type \<^verbatim>\<open>Blob\<close>, a binary object
  holding the same data as \<^verbatim>\<open>fetchFileContents\<close> returns.
\<close>

datatype Blob = Blob Uint8Array

text \<open>
  Modelled from the spec: the value behind the platform type
  \<^verbatim>\<open>WritableStream<Uint8Array>\<close>, an output stream for the file at a path: a sink that,
  when written to, replaces or produces that file's contents in the archive.
\<close>

datatype WritableStream = WritableStream string

text \<open>
  Modelled from the spec: a plugin is distributed either as a single script, with no
  backing archive, or as an archive with a manifest. The archive is the lookup from
  slash-separated relative paths to entries; path normalisation is left to the archive
  reader by the specification, so the lookup is taken as it is. The manifest's shape is
  owned by the host and stays a type parameter.
\<close>

datatype 'manifest Plugin =
    SingleFilePlugin
  | ArchivePlugin "string \<Rightarrow> ZipEntry option" 'manifest

text \<open>
  Modelled from the spec: whether a path resolves to a file entry of an archive, the
  condition of the fetch operations' NotFound failure.
\<close>

definition resolvesToFile :: "(string \<Rightarrow> ZipEntry option) \<Rightarrow> string \<Rightarrow> bool" where
  "resolvesToFile archive path =
     (case archive path of Some (ZipFileEntry bytes) \<Rightarrow> True | _ \<Rightarrow> False)"

text \<open>
  Modelled from the spec: the body of \<^verbatim>\<open>fetchFileContents\<close> (declared as
  \<^verbatim>\<open>fetchFileContents(path: string): Promise<Uint8Array>\<close>). It returns the raw bytes of
  the file at \<^verbatim>\<open>path\<close>; it fails with NotFound if \<^verbatim>\<open>path\<close> does not resolve to a file
  entry, and with UnsupportedOperation if the plugin is single-file.
\<close>

definition fetchFileContents :: "'m Plugin \<Rightarrow> string \<Rightarrow> PluginError + Uint8Array" where
  "fetchFileContents env path =
     (case env of
        SingleFilePlugin \<Rightarrow> Inl UnsupportedOperation
      | ArchivePlugin archive m \<Rightarrow>
          (case archive path of
             Some (ZipFileEntry bytes) \<Rightarrow> Inr bytes
           | _ \<Rightarrow> Inl NotFound))"

text \<open>
  Modelled from the spec: the body of \<^verbatim>\<open>fetchFileStringContents\<close> (declared as
  \<^verbatim>\<open>fetchFileStringContents(path: string): Promise<string>\<close>). As above, decoded as
  UTF-8 text, with the same failure modes. The decoder is the platform's and is a
  parameter.
\<close>

definition fetchFileStringContents ::
  "(Uint8Array \<Rightarrow> string) \<Rightarrow> 'm Plugin \<Rightarrow> string \<Rightarrow> PluginError + string" where
  "fetchFileStringContents utf8_decode env path =
     (case env of
        SingleFilePlugin \<Rightarrow> Inl UnsupportedOperation
      | ArchivePlugin archive m \<Rightarrow>
          (case archive path of
             Some (ZipFileEntry bytes) \<Rightarrow> Inr (utf8_decode bytes)
           | _ \<Rightarrow> Inl NotFound))"

text \<open>
  Modelled from the spec: the body of \<^verbatim>\<open>fetchFileAsBlob\<close> (declared as
  \<^verbatim>\<open>fetchFileAsBlob(path: string): Promise<Blob>\<close>). It gives the same data as
  \<^verbatim>\<open>fetchFileContents\<close> as a binary object; for a path that is not present it fails with
  NotFound, for a single-file plugin with UnsupportedOperation.
\<close>

definition fetchFileAsBlob :: "'m Plugin \<Rightarrow> string \<Rightarrow> PluginError + Blob" where
  "fetchFileAsBlob env path =
     (case env of
        SingleFilePlugin \<Rightarrow> Inl UnsupportedOperation
      | ArchivePlugin archive m \<Rightarrow>
          (case archive path of
             Some (ZipFileEntry bytes) \<Rightarrow> Inr (Blob bytes)
           | _ \<Rightarrow> Inl NotFound))"

text \<open>
  Modelled from the spec: the containing directory of a forward-slash-separated relative
  path, the part before its last slash; \<open>None\<close> is the archive root, which contains a
  path without a slash. The specification leaves path normalisation to the archive
  reader, so nothing else is rewritten.
\<close>

definition containingDirectory :: "string \<Rightarrow> string option" where
  "containingDirectory path =
     (case dropWhile (\<lambda>c. c \<noteq> CHR ''/'') (rev path) of
        [] \<Rightarrow> None
      | slash # parent \<Rightarrow> Some (rev parent))"

text \<open>
  Modelled from the spec: whether the containing directory of a path resolves, to the
  archive root or to a directory entry of the archive.
\<close>

definition containingDirectoryResolves ::
  "(string \<Rightarrow> ZipEntry option) \<Rightarrow> string \<Rightarrow> bool" where
  "containingDirectoryResolves archive path =
     (case containingDirectory path of
        None \<Rightarrow> True
      | Some parent \<Rightarrow>
          (case archive parent of Some ZipDirectoryEntry \<Rightarrow> True | _ \<Rightarrow> False))"

text \<open>
  Modelled from the spec: the body of \<^verbatim>\<open>fetchFileAsWritableStream\<close> (declared as
  \<^verbatim>\<open>fetchFileAsWritableStream(path: string): Promise<WritableStream<Uint8Array>>\<close>). It
  returns a sink that, when written to, replaces or produces the file's contents in the
  archive, so the file itself need not exist; the failure modes are those of the other
  fetch operations for resolving the path's containing directory: NotFound if that
  directory does not resolve, UnsupportedOperation for a single-file plugin.
\<close>

definition fetchFileAsWritableStream ::
  "'m Plugin \<Rightarrow> string \<Rightarrow> PluginError + WritableStream" where
  "fetchFileAsWritableStream env path =
     (case env of
        SingleFilePlugin \<Rightarrow> Inl UnsupportedOperation
      | ArchivePlugin archive m \<Rightarrow>
          (if containingDirectoryResolves archive path then Inr (WritableStream path)
           else Inl NotFound))"

text \<open>
  Modelled from the spec: the body of \<^verbatim>\<open>findZipEntry\<close> (declared as
  \<^verbatim>\<open>findZipEntry(path: string): zip.ZipEntry | undefined\<close>). The path resolves to a file
  or a directory, and the result is absent, not an error, when there is none. A
  single-file plugin has no archive to look in.
\<close>

definition findZipEntry :: "'m Plugin \<Rightarrow> string \<Rightarrow> ZipEntry option" where
  "findZipEntry env path =
     (case env of
        SingleFilePlugin \<Rightarrow> None
      | ArchivePlugin archive m \<Rightarrow> archive path)"

text \<open>
  Modelled from the spec: the body of \<^verbatim>\<open>findZipFileEntry\<close> (declared as
  \<^verbatim>\<open>findZipFileEntry(path: string): zip.ZipFileEntry | undefined\<close>). It returns absent,
  not an error, also when the path resolves to a directory.
\<close>

definition findZipFileEntry :: "'m Plugin \<Rightarrow> string \<Rightarrow> ZipEntry option" where
  "findZipFileEntry env path =
     (case env of
        SingleFilePlugin \<Rightarrow> None
      | ArchivePlugin archive m \<Rightarrow>
          (case archive path of
             Some (ZipFileEntry bytes) \<Rightarrow> Some (ZipFileEntry bytes)
           | _ \<Rightarrow> None))"

text \<open>
  Modelled from the spec: the body of \<^verbatim>\<open>findZipDirectoryEntry\<close> (declared as
  \<^verbatim>\<open>findZipDirectoryEntry(path: string): zip.ZipDirectoryEntry | undefined\<close>), symmetric
  to the previous, restricted to directories.
\<close>

definition findZipDirectoryEntry :: "'m Plugin \<Rightarrow> string \<Rightarrow> ZipEntry option" where
  "findZipDirectoryEntry env path =
     (case env of
        SingleFilePlugin \<Rightarrow> None
      | ArchivePlugin archive m \<Rightarrow>
          (case archive path of
             Some ZipDirectoryEntry \<Rightarrow> Some ZipDirectoryEntry
           | _ \<Rightarrow> None))"

text \<open>
  Modelled from the spec: reading the property declared as \<^verbatim>\<open>readonly zipFs: zip.FS\<close>,
  whose value the host supplies. For a single-file plugin an archive-backed capability
  fails with UnsupportedOperation.
\<close>

definition zipFs :: "'m Plugin \<Rightarrow> PluginError + (string \<Rightarrow> ZipEntry option)" where
  "zipFs env =
     (case env of
        SingleFilePlugin \<Rightarrow> Inl UnsupportedOperation
      | ArchivePlugin archive m \<Rightarrow> Inr archive)"

text \<open>
  Modelled from the spec: reading the property declared as
  \<^verbatim>\<open>readonly manifest: ReadonlyDeep<PluginManifestJSON>\<close>, whose value the host supplies;
  it fails for a single-file plugin in the same way.
\<close>

definition manifest :: "'m Plugin \<Rightarrow> PluginError + 'm" where
  "manifest env =
     (case env of
        SingleFilePlugin \<Rightarrow> Inl UnsupportedOperation
      | ArchivePlugin archive m \<Rightarrow> Inr m)"

section \<open>Properties of the type-level utilities\<close>

text \<open>
  What \<^verbatim>\<open>RemoveFirstNElements\<close> computes from any accumulator: once the count is
  reached the current \<^verbatim>\<open>Result\<close> is returned; a count that is never reached (negative,
  or beyond the tuple) consumes the whole tuple.
\<close>

lemma RemoveFirstNElements_eq:
  "RemoveFirstNElements T N Removed Result =
     (if int (length Removed) = N \<or> T = [] then Result
      else if int (length Removed) < N then drop (nat (N - int (length Removed))) T
      else [])"
proof (induction T arbitrary: Removed Result)
  case Nil
  show ?case by (subst RemoveFirstNElements.simps) simp
next
  case (Cons First Rest)
  show ?case
  proof (cases "int (length Removed) = N")
    case True
    then show ?thesis by (subst RemoveFirstNElements.simps) simp
  next
    case ne: False
    have step: "RemoveFirstNElements (First # Rest) N Removed Result =
                RemoveFirstNElements Rest N (Removed @ [First]) Rest"
      using ne by (subst RemoveFirstNElements.simps) simp
    show ?thesis
    proof (cases "int (length Removed) < N")
      case True
      then have n: "nat (N - int (length Removed)) = Suc (nat (N - int (length Removed) - 1))"
        by simp
      have "RemoveFirstNElements Rest N (Removed @ [First]) Rest =
            drop (nat (N - int (length Removed) - 1)) Rest"
        using True by (simp add: Cons.IH algebra_simps)
      then show ?thesis
        using ne True step n by simp
    next
      case False
      then have "RemoveFirstNElements Rest N (Removed @ [First]) Rest = []"
        using ne by (simp add: Cons.IH)
      then show ?thesis using ne False step by simp
    qed
  qed
qed

text \<open>
  What \<^verbatim>\<open>RemoveLastNElements\<close> computes with its defaults: the last element goes, and
  the remaining \<^verbatim>\<open>N - 1\<close> removals are taken from the front.
\<close>

lemma RemoveLastNElements_eq:
  "RemoveLastNElements T N [] [] = (if N \<le> 0 then [] else drop (nat (N - 1)) (butlast T))"
  by (auto simp: RemoveLastNElements_def RemoveFirstNElements_eq)







text \<open>
  C9. For every tuple \<^verbatim>\<open>T\<close>, \<^verbatim>\<open>RemoveFirstNElements<T, 0>\<close> is the empty tuple: the
  length of the empty \<^verbatim>\<open>Removed\<close> already equals \<^verbatim>\<open>0\<close>, so the default \<^verbatim>\<open>Result = []\<close>
  is returned. For a non-empty \<^verbatim>\<open>T\<close> this is not \<^verbatim>\<open>T\<close>: removing zero elements is not
  the identity.
\<close>

theorem RemoveFirstNElements_zero_is_empty:
  "RemoveFirstNElements T 0 [] [] = [] \<and>
   (T \<noteq> [] \<longrightarrow> RemoveFirstNElements T 0 [] [] \<noteq> T)"
  by (subst RemoveFirstNElements.simps, subst RemoveFirstNElements.simps) simp

theorem RemoveFirstNElements_zero_is_empty_witness:
  "[1, 2, 3 :: nat] \<noteq> [] \<and> RemoveFirstNElements [1, 2, 3 :: nat] 0 [] [] = [] \<and>
   RemoveFirstNElements [1, 2, 3 :: nat] 0 [] [] \<noteq> [1, 2, 3]"
  using RemoveFirstNElements_zero_is_empty [of "[1, 2, 3 :: nat]"] by simp

text \<open>
  C10. The claim is that \<^verbatim>\<open>RemoveLastNElements<T, N>\<close> is \<^verbatim>\<open>T\<close> without its last \<^verbatim>\<open>N\<close>
  elements. At \<^verbatim>\<open>T = [1, 2, 3, 4]\<close> and \<^verbatim>\<open>N = 2\<close> that would be \<^verbatim>\<open>[1, 2]\<close>; the type
  evaluates to \<^verbatim>\<open>[2, 3]\<close>, because after the first step the recursion continues in
  \<^verbatim>\<open>RemoveFirstNElements\<close> and removes from the front.
\<close>

theorem RemoveLastNElements_two_of_four:
  "RemoveLastNElements [1, 2, 3, 4 :: nat] 2 [] [] = [2, 3] \<and>
   take (length [1, 2, 3, 4 :: nat] - 2) [1, 2, 3, 4 :: nat] = [1, 2] \<and>
   RemoveLastNElements [1, 2, 3, 4 :: nat] 2 [] [] \<noteq> [1, 2]"
  by (simp add: RemoveLastNElements_def RemoveFirstNElements.simps)

section \<open>Properties of the declared interfaces\<close>

text \<open>
  C5. \<^verbatim>\<open>customizerEnv.type\<close> is always one of \<^verbatim>\<open>"Website"\<close>, \<^verbatim>\<open>"App"\<close> and \<^verbatim>\<open>"CLI"\<close>: the
  declared type \<^verbatim>\<open>OreUICustomizerType\<close> is closed, it has exactly these three members,
  which are three different strings, and no other value inhabits it.
\<close>

theorem OreUICustomizerType_closed:
  "type (env :: 's OreUICustomizerEnv) \<in> {Website, App, CLI} \<and>
   OreUICustomizerType_literal (type env) \<in> {''Website'', ''App'', ''CLI''} \<and>
   (UNIV :: OreUICustomizerType set) = {Website, App, CLI} \<and>
   card (UNIV :: OreUICustomizerType set) = 3 \<and>
   inj OreUICustomizerType_literal"
proof -
  have members: "(UNIV :: OreUICustomizerType set) = {Website, App, CLI}"
    using OreUICustomizerType.exhaust by auto
  have literal: "OreUICustomizerType_literal t \<in> {''Website'', ''App'', ''CLI''}" for t
    by (cases t) simp_all
  have three: "card (UNIV :: OreUICustomizerType set) = 3"
    by (simp add: members)
  have different: "inj OreUICustomizerType_literal"
  proof (rule injI)
    fix x y
    assume "OreUICustomizerType_literal x = OreUICustomizerType_literal y"
    then show "x = y" by (cases x; cases y) simp_all
  qed
  from members literal three different show ?thesis by (metis UNIV_I)
qed

text \<open>
  C7, as amended. The plugin environment interface declares a read-only property named
  \<^verbatim>\<open>zipFs\<close>, of type \<^verbatim>\<open>zip.FS\<close> (the zip filesystem that stores the contents of the
  plugin); its members are the seven path-based methods, \<^verbatim>\<open>zipFs\<close> and \<^verbatim>\<open>manifest\<close>.
\<close>

theorem zipFs_declared_readonly:
  "lookup_member OreUICustomizerPluginEnv_members ''zipFs'' =
     Some (PropertySig ''zipFs'' True T_zip_FS) \<and>
   map member_name OreUICustomizerPluginEnv_members =
     [''fetchFileContents'', ''fetchFileStringContents'', ''fetchFileAsBlob'',
      ''fetchFileAsWritableStream'', ''findZipEntry'', ''findZipFileEntry'',
      ''findZipDirectoryEntry'', ''zipFs'', ''manifest'']"
  by (simp add: OreUICustomizerPluginEnv_members_def)

text \<open>
  C7, as stated, asks for a property named \<^verbatim>\<open>archiveRoot\<close>. The interface declares no
  member of that name.
\<close>

theorem archiveRoot_not_declared:
  "lookup_member OreUICustomizerPluginEnv_members ''archiveRoot'' = None"
  by (simp add: OreUICustomizerPluginEnv_members_def)

section \<open>Properties of the plugin capability facade\<close>

text \<open>
  C1. Against a single-file plugin every archive-backed operation
  (\<^verbatim>\<open>fetchFileContents\<close>, \<^verbatim>\<open>fetchFileStringContents\<close>, \<^verbatim>\<open>fetchFileAsBlob\<close>,
  \<^verbatim>\<open>fetchFileAsWritableStream\<close>, reading \<^verbatim>\<open>zipFs\<close> or \<^verbatim>\<open>manifest\<close>) fails with
  UnsupportedOperation, for every path: never with NotFound, and never by returning data.
\<close>

theorem single_file_is_UnsupportedOperation:
  "fetchFileContents SingleFilePlugin path = Inl UnsupportedOperation \<and>
   fetchFileStringContents utf8_decode SingleFilePlugin path = Inl UnsupportedOperation \<and>
   fetchFileAsBlob SingleFilePlugin path = Inl UnsupportedOperation \<and>
   fetchFileAsWritableStream SingleFilePlugin path = Inl UnsupportedOperation \<and>
   zipFs SingleFilePlugin = Inl UnsupportedOperation \<and>
   manifest SingleFilePlugin = Inl UnsupportedOperation"
  by (simp add: fetchFileContents_def fetchFileStringContents_def fetchFileAsBlob_def
      fetchFileAsWritableStream_def zipFs_def manifest_def)

text \<open>
  C2. For every plugin and path, \<^verbatim>\<open>findZipEntry\<close> returns an entry if and only if exactly
  one of \<^verbatim>\<open>findZipFileEntry\<close> and \<^verbatim>\<open>findZipDirectoryEntry\<close> does; the two restricted
  lookups never both return one, and the entry \<^verbatim>\<open>findZipEntry\<close> returns is theirs. The
  three lookups have no error result: absence is \<open>None\<close>, also for a single-file plugin.
\<close>

theorem findZipEntry_iff_file_xor_directory:
  "(findZipEntry env path \<noteq> None) =
     ((findZipFileEntry env path \<noteq> None) \<noteq> (findZipDirectoryEntry env path \<noteq> None)) \<and>
   \<not> (findZipFileEntry env path \<noteq> None \<and> findZipDirectoryEntry env path \<noteq> None) \<and>
   findZipEntry env path =
     (if findZipFileEntry env path \<noteq> None then findZipFileEntry env path
      else findZipDirectoryEntry env path)"
proof (cases env)
  case SingleFilePlugin
  then show ?thesis
    by (simp add: findZipEntry_def findZipFileEntry_def findZipDirectoryEntry_def)
next
  case (ArchivePlugin archive m)
  show ?thesis
  proof (cases "archive path")
    case None
    with ArchivePlugin show ?thesis
      by (simp add: findZipEntry_def findZipFileEntry_def findZipDirectoryEntry_def)
  next
    case (Some e)
    with ArchivePlugin show ?thesis
      by (cases e)
        (simp_all add: findZipEntry_def findZipFileEntry_def findZipDirectoryEntry_def)
  qed
qed




text \<open>
  C4. For a multi-file plugin and a path that resolves to a file entry of its archive,
  \<^verbatim>\<open>fetchFileContents\<close> returns the file's bytes and \<^verbatim>\<open>fetchFileStringContents\<close> returns
  the UTF-8 decoding of exactly those bytes.
\<close>

theorem string_contents_is_decoded_contents:
  assumes "resolvesToFile archive path"
  shows "\<exists>bytes. fetchFileContents (ArchivePlugin archive m) path = Inr bytes \<and>
           fetchFileStringContents utf8_decode (ArchivePlugin archive m) path =
             Inr (utf8_decode bytes)"
proof (cases "archive path")
  case None
  with assms show ?thesis by (simp add: resolvesToFile_def)
next
  case (Some e)
  with assms obtain bytes where "e = ZipFileEntry bytes"
    by (cases e) (simp_all add: resolvesToFile_def)
  with Some show ?thesis
    by (simp add: fetchFileContents_def fetchFileStringContents_def)
qed

theorem string_contents_is_decoded_contents_witness:
  "resolvesToFile
       (map_of [(''manifest.json'', ZipFileEntry [123, 125 :: 8 word]),
               (''assets'', ZipDirectoryEntry)]) ''manifest.json'' \<and>
   fetchFileContents (ArchivePlugin
       (map_of [(''manifest.json'', ZipFileEntry [123, 125 :: 8 word]),
               (''assets'', ZipDirectoryEntry)]) ()) ''manifest.json'' = Inr [123, 125 :: 8 word] \<and>
   fetchFileStringContents (map (\<lambda>b :: 8 word. char_of (unat b))) (ArchivePlugin
       (map_of [(''manifest.json'', ZipFileEntry [123, 125 :: 8 word]),
               (''assets'', ZipDirectoryEntry)]) ()) ''manifest.json'' =
     Inr (map (\<lambda>b :: 8 word. char_of (unat b)) [123, 125])"
proof -
  have is_file: "resolvesToFile
       (map_of [(''manifest.json'', ZipFileEntry [123, 125 :: 8 word]),
               (''assets'', ZipDirectoryEntry)]) ''manifest.json''"
    by (simp add: resolvesToFile_def)
  show ?thesis
    using is_file string_contents_is_decoded_contents [OF is_file, where m = "()"
        and utf8_decode = "map (\<lambda>b :: 8 word. char_of (unat b))"]
    by (auto simp: fetchFileContents_def)
qed

end
